theory Spec2Isabelle
  imports Complex_Main
begin

section \<open>Lateral path-tracking controllers: Pure Pursuit, Stanley and their hybrid\<close>

text \<open>
  A shallow embedding of \<^verbatim>\<open>pure_pursuit.py\<close>, \<^verbatim>\<open>stanley.py\<close> and
  \<^verbatim>\<open>hybrid_controller.py\<close>. Python and numpy floats are idealised as \<^typ>\<open>real\<close>:
  there is no rounding, no NaN and no signed zero. \<^verbatim>\<open>float('inf')\<close>, the start value
  of the nearest-waypoint scans, is the value \<open>None\<close> of \<^typ>\<open>real option\<close>. A division whose
  divisor can be zero is a branch that returns \<open>ZeroDivisionError\<close>.
\<close>

subsection \<open>numpy and Python primitives\<close>

definition np_radians :: "real \<Rightarrow> real" where
  "np_radians d = d * pi / 180"

definition np_clip :: "real \<Rightarrow> real \<Rightarrow> real \<Rightarrow> real" where
  "np_clip a a_min a_max = min (max a a_min) a_max"

text \<open>\<^verbatim>\<open>np.arctan2(y, x)\<close>: the angle of the point \<open>(x, y)\<close> in \<open>(-pi, pi]\<close>, and 0 at the origin.\<close>

definition np_arctan2 :: "real \<Rightarrow> real \<Rightarrow> real" where
  "np_arctan2 y x =
     (if 0 < x then arctan (y / x)
      else if x < 0 then (if 0 \<le> y then arctan (y / x) + pi else arctan (y / x) - pi)
      else if 0 < y then pi / 2
      else if y < 0 then - (pi / 2)
      else 0)"

text \<open>\<^verbatim>\<open>np.diff(a)\<close>: \<open>out[i] = a[i+1] - a[i]\<close>.\<close>

fun np_diff :: "real list \<Rightarrow> real list" where
  "np_diff (a # b # xs) = (b - a) # np_diff (b # xs)"
| "np_diff xs = []"

text \<open>\<^verbatim>\<open>d < m\<close> where \<open>m\<close> may be \<^verbatim>\<open>float('inf')\<close>.\<close>

fun lt_float :: "real \<Rightarrow> real option \<Rightarrow> bool" where
  "lt_float d None = True"
| "lt_float d (Some m) = (d < m)"

datatype error = IndexError | AttributeError | ZeroDivisionError

subsection \<open>The CARLA values the controllers read\<close>

record Location =
  loc_x :: real
  loc_y :: real
  loc_z :: real

record Rotation =
  pitch :: real
  yaw :: real
  roll :: real

record Transform =
  location :: Location
  rotation :: Rotation

record Vector3D =
  vec_x :: real
  vec_y :: real
  vec_z :: real

record Waypoint =
  transform :: Transform

record Vehicle =
  get_transform :: Transform
  get_velocity :: Vector3D

record VehicleControl =
  throttle :: real
  steer :: real
  brake :: real
  hand_brake :: bool
  reverse :: bool
  manual_gear_shift :: bool
  gear :: int

text \<open>\<^verbatim>\<open>carla.Location.distance\<close>: the Euclidean distance of two locations.\<close>

definition distance :: "Location \<Rightarrow> Location \<Rightarrow> real" where
  "distance a b = sqrt ((loc_x b - loc_x a)\<^sup>2 + (loc_y b - loc_y a)\<^sup>2 + (loc_z b - loc_z a)\<^sup>2)"

text \<open>\<^verbatim>\<open>carla.VehicleControl()\<close> with no argument.\<close>

definition VehicleControl_default :: VehicleControl where
  "VehicleControl_default =
     \<lparr>throttle = 0, steer = 0, brake = 0, hand_brake = False, reverse = False,
      manual_gear_shift = False, gear = 0\<rparr>"

text \<open>\<^verbatim>\<open>get_speed\<close>, the same static method in the three classes.\<close>

definition get_speed :: "Vehicle \<Rightarrow> real" where
  "get_speed vehicle =
     (let velocity = get_velocity vehicle
      in sqrt ((vec_x velocity)\<^sup>2 + (vec_y velocity)\<^sup>2 + (vec_z velocity)\<^sup>2))"

subsection \<open>The nearest-waypoint scan\<close>

text \<open>
  The loop \<^verbatim>\<open>for i, waypoint in enumerate(waypoints)\<close> of
  \<^verbatim>\<open>PurePursuitController.find_lookahead_point\<close> and of
  \<^verbatim>\<open>HybridController.estimate_path_curvature\<close>, with its state
  \<open>(min_distance, closest_idx)\<close>; \<open>i\<close> is the index of the head of the list.
\<close>

fun closest_loop :: "Location \<Rightarrow> Waypoint list \<Rightarrow> nat \<Rightarrow> real option \<times> nat \<Rightarrow> real option \<times> nat" where
  "closest_loop vehicle_location [] i acc = acc"
| "closest_loop vehicle_location (waypoint # rest) i (min_distance, closest_idx) =
     (let d = distance vehicle_location (location (transform waypoint))
      in if lt_float d min_distance
         then closest_loop vehicle_location rest (i + 1) (Some d, i)
         else closest_loop vehicle_location rest (i + 1) (min_distance, closest_idx))"

text \<open>The same loop in \<^verbatim>\<open>StanleyController.find_closest_waypoint\<close> also keeps the waypoint.\<close>

fun find_closest_loop ::
  "Location \<Rightarrow> Waypoint list \<Rightarrow> nat \<Rightarrow> real option \<times> Waypoint option \<times> nat
     \<Rightarrow> real option \<times> Waypoint option \<times> nat" where
  "find_closest_loop vehicle_location [] i acc = acc"
| "find_closest_loop vehicle_location (waypoint # rest) i (min_distance, closest_waypoint, closest_idx) =
     (let d = distance vehicle_location (location (transform waypoint))
      in if lt_float d min_distance
         then find_closest_loop vehicle_location rest (i + 1) (Some d, Some waypoint, i)
         else find_closest_loop vehicle_location rest (i + 1) (min_distance, closest_waypoint, closest_idx))"

subsection \<open>\<^verbatim>\<open>pure_pursuit.py\<close>\<close>

record PurePursuitController =
  lookahead_distance :: real
  pp_wheelbase :: real
  pp_target_speed :: real

text \<open>The forward search \<^verbatim>\<open>for i in range(closest_waypoint_idx, min(closest_waypoint_idx + 50, len(waypoints)))\<close>,
  by recursion on the list of indices; \<open>None\<close> when the loop ends without returning.\<close>

fun lookahead_loop :: "real \<Rightarrow> Location \<Rightarrow> Waypoint list \<Rightarrow> nat list \<Rightarrow> Location option" where
  "lookahead_loop ld vehicle_location waypoints [] = None"
| "lookahead_loop ld vehicle_location waypoints (i # rest) =
     (let waypoint = waypoints ! i;
          d = distance vehicle_location (location (transform waypoint))
      in if d \<ge> ld then Some (location (transform waypoint))
         else lookahead_loop ld vehicle_location waypoints rest)"

text \<open>Lines 55 to 67 of \<^verbatim>\<open>find_lookahead_point\<close>: the search from the closest index and the
  two fallbacks. \<^verbatim>\<open>waypoints[-1]\<close> raises IndexError on an empty list.\<close>

definition lookahead_from ::
  "PurePursuitController \<Rightarrow> Location \<Rightarrow> Waypoint list \<Rightarrow> nat \<Rightarrow> error + Location option" where
  "lookahead_from self vehicle_location waypoints closest_waypoint_idx =
     (case lookahead_loop (lookahead_distance self) vehicle_location waypoints
             [closest_waypoint_idx ..< min (closest_waypoint_idx + 50) (length waypoints)] of
        Some p \<Rightarrow> Inr (Some p)
      | None \<Rightarrow>
          if closest_waypoint_idx + 30 < length waypoints
          then Inr (Some (location (transform (waypoints ! (closest_waypoint_idx + 30)))))
          else if waypoints = [] then Inl IndexError
          else Inr (Some (location (transform (last waypoints)))))"

definition PP_find_lookahead_point ::
  "PurePursuitController \<Rightarrow> Location \<Rightarrow> Transform \<Rightarrow> Waypoint list \<Rightarrow> error + Location option" where
  "PP_find_lookahead_point self vehicle_location vehicle_transform waypoints =
     (let (min_distance, closest_waypoint_idx) = closest_loop vehicle_location waypoints 0 (None, 0)
      in lookahead_from self vehicle_location waypoints closest_waypoint_idx)"

definition PP_compute_steering :: "PurePursuitController \<Rightarrow> Transform \<Rightarrow> Location \<Rightarrow> real" where
  "PP_compute_steering self vehicle_transform target_location =
     (let vehicle_location = location vehicle_transform;
          vehicle_yaw = np_radians (yaw (rotation vehicle_transform));
          dx = loc_x target_location - loc_x vehicle_location;
          dy = loc_y target_location - loc_y vehicle_location;
          local_x = dx * cos vehicle_yaw + dy * sin vehicle_yaw;
          local_y = - dx * sin vehicle_yaw + dy * cos vehicle_yaw;
          ld_squared = local_x\<^sup>2 + local_y\<^sup>2;
          curvature = (if ld_squared > 0.01 then 2.0 * local_y / ld_squared else 0.0);
          steering_angle = arctan (curvature * pp_wheelbase self);
          max_steering_angle = np_radians 70
      in np_clip (steering_angle / max_steering_angle) (- 1.0) 1.0)"

definition PP_run_step :: "PurePursuitController \<Rightarrow> Vehicle \<Rightarrow> Waypoint list \<Rightarrow> error + VehicleControl" where
  "PP_run_step self vehicle waypoints =
     (let vehicle_transform = get_transform vehicle;
          vehicle_location = location vehicle_transform
      in case PP_find_lookahead_point self vehicle_location vehicle_transform waypoints of
           Inl e \<Rightarrow> Inl e
         | Inr None \<Rightarrow> Inr (VehicleControl_default\<lparr>throttle := 0.0, steer := 0.0, brake := 1.0\<rparr>)
         | Inr (Some target_location) \<Rightarrow>
             (let steering = PP_compute_steering self vehicle_transform target_location;
                  current_speed = get_speed vehicle;
                  (thr, brk) = (if current_speed < pp_target_speed self / 3.6
                                then (0.5, 0.0) else (0.0, 0.3))
              in Inr (VehicleControl_default\<lparr>steer := steering, throttle := thr, brake := brk,
                        hand_brake := False, manual_gear_shift := False\<rparr>)))"

subsection \<open>\<^verbatim>\<open>stanley.py\<close>\<close>

record StanleyController =
  stanley_k :: real
  stanley_wheelbase :: real
  stanley_target_speed :: real

text \<open>Returns \<open>(closest_waypoint, closest_idx, min_distance)\<close>; it has no failing branch.\<close>

definition find_closest_waypoint :: "Location \<Rightarrow> Waypoint list \<Rightarrow> Waypoint option \<times> nat \<times> real option" where
  "find_closest_waypoint vehicle_location waypoints =
     (let (min_distance, closest_waypoint, closest_idx) =
            find_closest_loop vehicle_location waypoints 0 (None, None, 0)
      in (closest_waypoint, closest_idx, min_distance))"

definition compute_cross_track_error :: "Transform \<Rightarrow> Waypoint \<Rightarrow> real" where
  "compute_cross_track_error vehicle_transform closest_waypoint =
     (let vehicle_location = location vehicle_transform;
          vehicle_yaw = np_radians (yaw (rotation vehicle_transform));
          waypoint_location = location (transform closest_waypoint);
          dx = loc_x waypoint_location - loc_x vehicle_location;
          dy = loc_y waypoint_location - loc_y vehicle_location
      in - dx * sin vehicle_yaw + dy * cos vehicle_yaw)"

definition compute_heading_error :: "Transform \<Rightarrow> Waypoint \<Rightarrow> Waypoint option \<Rightarrow> real" where
  "compute_heading_error vehicle_transform closest_waypoint next_waypoint =
     (let vehicle_yaw = np_radians (yaw (rotation vehicle_transform));
          path_yaw =
            (case next_waypoint of
               Some nxt \<Rightarrow>
                 (let dx = loc_x (location (transform nxt)) - loc_x (location (transform closest_waypoint));
                      dy = loc_y (location (transform nxt)) - loc_y (location (transform closest_waypoint))
                  in np_arctan2 dy dx)
             | None \<Rightarrow> np_radians (yaw (rotation (transform closest_waypoint))));
          heading_error = path_yaw - vehicle_yaw
      in np_arctan2 (sin heading_error) (cos heading_error))"

text \<open>With an empty path \<open>closest_waypoint\<close> is \<^verbatim>\<open>None\<close> and the first read of
  \<^verbatim>\<open>closest_waypoint.transform\<close>, in \<^verbatim>\<open>compute_heading_error\<close>, raises AttributeError.\<close>

definition Stanley_compute_steering ::
  "StanleyController \<Rightarrow> Transform \<Rightarrow> real \<Rightarrow> Waypoint list \<Rightarrow> error + real" where
  "Stanley_compute_steering self vehicle_transform vehicle_speed waypoints =
     (let vehicle_location = location vehicle_transform;
          (closest_waypoint, closest_idx, _) = find_closest_waypoint vehicle_location waypoints;
          next_waypoint = (if closest_idx + 1 < length waypoints
                           then Some (waypoints ! (closest_idx + 1)) else None)
      in case closest_waypoint of
           None \<Rightarrow> Inl AttributeError
         | Some cw \<Rightarrow>
             (let heading_error = compute_heading_error vehicle_transform cw next_waypoint;
                  cross_track_error = compute_cross_track_error vehicle_transform cw;
                  speed = max vehicle_speed 0.1;
                  cross_track_term = arctan (stanley_k self * cross_track_error / speed);
                  steering_angle = heading_error + cross_track_term;
                  max_steering_angle = np_radians 70
              in Inr (np_clip (steering_angle / max_steering_angle) (- 1.0) 1.0)))"

definition Stanley_run_step :: "StanleyController \<Rightarrow> Vehicle \<Rightarrow> Waypoint list \<Rightarrow> error + VehicleControl" where
  "Stanley_run_step self vehicle waypoints =
     (let vehicle_transform = get_transform vehicle;
          vehicle_speed = get_speed vehicle
      in case Stanley_compute_steering self vehicle_transform vehicle_speed waypoints of
           Inl e \<Rightarrow> Inl e
         | Inr steering \<Rightarrow>
             (let (thr, brk) = (if vehicle_speed < stanley_target_speed self / 3.6
                                then (0.5, 0.0) else (0.0, 0.3))
              in Inr (VehicleControl_default\<lparr>steer := steering, throttle := thr, brake := brk,
                        hand_brake := False, manual_gear_shift := False\<rparr>)))"

subsection \<open>\<^verbatim>\<open>hybrid_controller.py\<close>\<close>

record HybridController =
  pure_pursuit :: PurePursuitController
  stanley :: StanleyController
  curvature_threshold :: real
  blend_zone :: real
  mode :: string
  speed_adaptive :: bool
  active_controller :: string
  blend_weight :: real
  current_curvature :: real

text \<open>\<^verbatim>\<open>end_idx\<close> is an \<^typ>\<open>int\<close>: it is \<open>-1\<close> on an empty path.\<close>

definition estimate_path_curvature :: "Location \<Rightarrow> Waypoint list \<Rightarrow> int \<Rightarrow> real" where
  "estimate_path_curvature vehicle_location waypoints lookahead_points =
     (let (min_distance, closest_idx) = closest_loop vehicle_location waypoints 0 (None, 0);
          end_idx = min (int closest_idx + lookahead_points) (int (length waypoints) - 1)
      in if end_idx - int closest_idx < 3 then 0.0
         else
           (let points = map (\<lambda>i. (let wp = location (transform (waypoints ! i))
                                   in (loc_x wp, loc_y wp))) [closest_idx ..< nat end_idx]
            in if length points < 3 then 0.0
               else
                 (let dx = np_diff (map fst points);
                      dy = np_diff (map snd points);
                      headings = map2 np_arctan2 dy dx
                  in if length headings > 1
                     then
                       (let heading_change = map abs (np_diff headings);
                            heading_change = map (\<lambda>h. np_arctan2 (sin h) (cos h)) heading_change;
                            distances = map2 (\<lambda>a b. sqrt (a\<^sup>2 + b\<^sup>2)) (butlast dx) (butlast dy);
                            total_distance = sum_list distances
                        in if total_distance > 0.1
                           then sum_list (map abs heading_change) / total_distance
                           else 0.0)
                     else 0.0)))"

text \<open>
  The weight from the curvature alone (lines 132 to 142). The division by
  \<^verbatim>\<open>2 * self.blend_zone\<close> is the one division of the three files with no guard. It is
  reached with a zero divisor only when the blend zone is 0 and the curvature equals the
  threshold, and then it is \<open>0 / 0\<close>: Python raises ZeroDivisionError when the curvature is
  a Python float (the \<^verbatim>\<open>return 0.0\<close> exits of the estimate), and numpy yields nan, with a
  warning, when it is a numpy float. Neither is a real number, and the model has the one
  failing branch for both.
\<close>

definition curvature_weight :: "HybridController \<Rightarrow> real \<Rightarrow> error + real" where
  "curvature_weight self curvature =
     (if curvature < curvature_threshold self - blend_zone self then Inr 0.0
      else if curvature > curvature_threshold self + blend_zone self then Inr 1.0
      else if 2 * blend_zone self = 0 then Inl ZeroDivisionError
      else Inr (np_clip ((curvature - (curvature_threshold self - blend_zone self))
                          / (2 * blend_zone self)) 0.0 1.0))"

text \<open>\<^verbatim>\<open>speed=None\<close> is the default of the parameter.\<close>

definition compute_blend_weight :: "HybridController \<Rightarrow> real \<Rightarrow> real option \<Rightarrow> error + real" where
  "compute_blend_weight self curvature speed =
     (case curvature_weight self curvature of
        Inl e \<Rightarrow> Inl e
      | Inr weight \<Rightarrow>
          (case speed of
             Some s \<Rightarrow>
               if speed_adaptive self
               then (let speed_factor = np_clip (s / 15.0) 0.0 1.0
                     in Inr (weight * (1.0 - 0.3 * speed_factor)))
               else Inr weight
           | None \<Rightarrow> Inr weight))"

definition adaptive_lookahead :: "real \<Rightarrow> real" where
  "adaptive_lookahead speed =
     (let base_lookahead = 2.0; speed_factor = 0.3; max_lookahead = 6.0;
          lookahead = base_lookahead + speed * speed_factor
      in min lookahead max_lookahead)"

definition adaptive_stanley_gain :: "real \<Rightarrow> real" where
  "adaptive_stanley_gain speed =
     (if speed < 5.0 then 1.0 else if speed < 10.0 then 0.7 else 0.5)"

text \<open>
  \<^verbatim>\<open>run_step\<close> assigns to fields of the controller and of its two trackers before it
  returns or raises, so the model returns the controller after the call together with
  the command or the error.
\<close>

definition Hybrid_run_step ::
  "HybridController \<Rightarrow> Vehicle \<Rightarrow> Waypoint list \<Rightarrow> HybridController \<times> (error + VehicleControl)" where
  "Hybrid_run_step self0 vehicle waypoints =
     (let vehicle_transform = get_transform vehicle;
          vehicle_location = location vehicle_transform;
          vehicle_speed = get_speed vehicle;
          curvature = estimate_path_curvature vehicle_location waypoints 10;
          self1 = self0\<lparr>current_curvature := curvature\<rparr>;
          self = (if speed_adaptive self1
                  then self1\<lparr>pure_pursuit := (pure_pursuit self1)
                                \<lparr>lookahead_distance := adaptive_lookahead vehicle_speed\<rparr>,
                             stanley := (stanley self1)
                                \<lparr>stanley_k := adaptive_stanley_gain vehicle_speed\<rparr>\<rparr>
                  else self1)
      in if mode self = ''switching'' then
           (if curvature > curvature_threshold self
            then (self\<lparr>active_controller := ''Stanley''\<rparr>,
                  Stanley_run_step (stanley self) vehicle waypoints)
            else (self\<lparr>active_controller := ''Pure Pursuit''\<rparr>,
                  PP_run_step (pure_pursuit self) vehicle waypoints))
         else if mode self = ''blending'' then
           (case PP_run_step (pure_pursuit self) vehicle waypoints of
              Inl e \<Rightarrow> (self, Inl e)
            | Inr pp_control \<Rightarrow>
                (case Stanley_run_step (stanley self) vehicle waypoints of
                   Inl e \<Rightarrow> (self, Inl e)
                 | Inr stanley_control \<Rightarrow>
                     (case compute_blend_weight self curvature (Some vehicle_speed) of
                        Inl e \<Rightarrow> (self, Inl e)
                      | Inr weight \<Rightarrow>
                          (let blended_steering =
                                 (1 - weight) * steer pp_control + weight * steer stanley_control;
                               control = VehicleControl_default
                                 \<lparr>steer := np_clip blended_steering (- 1.0) 1.0,
                                  throttle := throttle pp_control,
                                  brake := brake pp_control,
                                  hand_brake := False, manual_gear_shift := False\<rparr>;
                               label = (if weight < 0.3 then ''Pure Pursuit (blended)''
                                        else if weight > 0.7 then ''Stanley (blended)''
                                        else ''Hybrid (50/50)'')
                           in (self\<lparr>blend_weight := weight, active_controller := label\<rparr>,
                               Inr control)))))
         else
           (let use_stanley =
                  (if curvature > curvature_threshold self + blend_zone self then True
                   else if curvature > curvature_threshold self \<and> vehicle_speed < 8.0 then True
                   else False)
            in if use_stanley
               then (self\<lparr>active_controller := ''Stanley'', blend_weight := 1.0\<rparr>,
                     Stanley_run_step (stanley self) vehicle waypoints)
               else (self\<lparr>active_controller := ''Pure Pursuit'', blend_weight := 0.0\<rparr>,
                     PP_run_step (pure_pursuit self) vehicle waypoints)))"

record ControllerInfo =
  info_active_controller :: string
  info_blend_weight :: real
  info_curvature :: real
  info_pp_lookahead :: real
  info_stanley_k :: real

definition get_controller_info :: "HybridController \<Rightarrow> ControllerInfo" where
  "get_controller_info self =
     \<lparr>info_active_controller = active_controller self,
      info_blend_weight = blend_weight self,
      info_curvature = current_curvature self,
      info_pp_lookahead = lookahead_distance (pure_pursuit self),
      info_stanley_k = stanley_k (stanley self)\<rparr>"

subsection \<open>The vocabulary of the specification\<close>

text \<open>
  The definitions of this subsection follow the words of the specification, not the
  code; the theorems below compare the code with them.
\<close>

text \<open>The nearest waypoint: the first index whose waypoint is at the minimum distance.\<close>

definition nearest_index :: "Location \<Rightarrow> Waypoint list \<Rightarrow> nat \<Rightarrow> bool" where
  "nearest_index p path i \<longleftrightarrow>
     i < length path
     \<and> (\<forall>j < length path. distance p (location (transform (path ! i)))
                             \<le> distance p (location (transform (path ! j))))
     \<and> (\<forall>j < i. distance p (location (transform (path ! i)))
                  < distance p (location (transform (path ! j))))"

text \<open>The target seen from the vehicle: a rotation of the displacement by the heading.\<close>

definition to_vehicle_frame :: "Transform \<Rightarrow> Location \<Rightarrow> real \<times> real" where
  "to_vehicle_frame pose target =
     (let heading = np_radians (yaw (rotation pose));
          dx = loc_x target - loc_x (location pose);
          dy = loc_y target - loc_y (location pose)
      in (dx * cos heading + dy * sin heading, - dx * sin heading + dy * cos heading))"

text \<open>The pure-pursuit law on a target \<open>(local_x, local_y)\<close> in the vehicle frame.\<close>

definition pure_pursuit_law :: "real \<Rightarrow> real \<Rightarrow> real \<Rightarrow> real" where
  "pure_pursuit_law local_x local_y wheelbase =
     (let L2 = local_x\<^sup>2 + local_y\<^sup>2;
          curvature = (if L2 > 0.01 then 2 * local_y / L2 else 0)
      in np_clip (arctan (curvature * wheelbase) / np_radians 70) (- 1) 1)"

text \<open>An angle brought back into \<open>(-pi, pi]\<close>.\<close>

definition wrap_angle :: "real \<Rightarrow> real" where
  "wrap_angle a = np_arctan2 (sin a) (cos a)"

text \<open>The invariant of a control command: the steering is in range, and throttle and
  brake exclude each other.\<close>

definition ControlCommand_invariant :: "VehicleControl \<Rightarrow> bool" where
  "ControlCommand_invariant c \<longleftrightarrow>
     - 1 \<le> steer c \<and> steer c \<le> 1
     \<and> (throttle c \<noteq> 0 \<longrightarrow> brake c = 0)
     \<and> (brake c \<noteq> 0 \<longrightarrow> throttle c = 0)"

text \<open>The planar position of a waypoint.\<close>

definition waypoint_xy :: "Waypoint \<Rightarrow> real \<times> real" where
  "waypoint_xy w = (loc_x (location (transform w)), loc_y (location (transform w)))"

text \<open>
  The curvature of a list of points: 0 for fewer than 3 points; otherwise the sum of the
  absolute wrapped differences of consecutive segment headings, over the arc length
  without the last segment, and 0 when that arc length is at most 0.1.
\<close>

definition curvature_of_points :: "(real \<times> real) list \<Rightarrow> real" where
  "curvature_of_points pts =
     (if length pts < 3 then 0
      else
        (let dxs = np_diff (map fst pts);
             dys = np_diff (map snd pts);
             headings = map2 np_arctan2 dys dxs;
             turning = sum_list (map (\<lambda>d. \<bar>wrap_angle d\<bar>) (np_diff headings));
             arc = sum_list (map2 (\<lambda>a b. sqrt (a\<^sup>2 + b\<^sup>2)) (butlast dxs) (butlast dys))
         in if arc \<le> 0.1 then 0 else turning / arc))"

subsection \<open>Concrete configurations and paths\<close>

text \<open>The controller that \<^verbatim>\<open>HybridController()\<close> builds with its default arguments.\<close>

definition cfg0 :: HybridController where
  "cfg0 = \<lparr>pure_pursuit = \<lparr>lookahead_distance = 3, pp_wheelbase = 2.875, pp_target_speed = 30\<rparr>,
           stanley = \<lparr>stanley_k = 0.5, stanley_wheelbase = 2.875, stanley_target_speed = 30\<rparr>,
           curvature_threshold = 0.05, blend_zone = 0.02, mode = ''adaptive'',
           speed_adaptive = True, active_controller = ''Hybrid'', blend_weight = 0.5,
           current_curvature = 0\<rparr>"

text \<open>A vehicle at rest at the origin, heading along the first axis, and waypoints on the ground plane.\<close>

definition zero_rotation :: Rotation where
  "zero_rotation = \<lparr>pitch = 0, yaw = 0, roll = 0\<rparr>"

definition wp_at :: "real \<Rightarrow> real \<Rightarrow> Waypoint" where
  "wp_at px py = \<lparr>transform = \<lparr>location = \<lparr>loc_x = px, loc_y = py, loc_z = 0\<rparr>, rotation = zero_rotation\<rparr>\<rparr>"

definition origin_pose :: Transform where
  "origin_pose = \<lparr>location = \<lparr>loc_x = 0, loc_y = 0, loc_z = 0\<rparr>, rotation = zero_rotation\<rparr>"

definition veh0 :: Vehicle where
  "veh0 = \<lparr>get_transform = origin_pose, get_velocity = \<lparr>vec_x = 0, vec_y = 0, vec_z = 0\<rparr>\<rparr>"

definition path1 :: "Waypoint list" where
  "path1 = [wp_at 4 0]"

text \<open>Five waypoints around two left turns of a quarter circle each.\<close>

definition path_turn :: "Waypoint list" where
  "path_turn = [wp_at 0 0, wp_at 1 0, wp_at 1 1, wp_at 0 1, wp_at (- 1) 1]"

text \<open>Three waypoints around one left turn of a quarter circle.\<close>

definition path3 :: "Waypoint list" where
  "path3 = [wp_at 0 0, wp_at 1 0, wp_at 1 1]"

section \<open>Properties\<close>

subsection \<open>Clipping\<close>

lemma np_clip_bounds: "lo \<le> hi \<Longrightarrow> lo \<le> np_clip a lo hi \<and> np_clip a lo hi \<le> hi"
  by (simp add: np_clip_def)

lemma np_clip_id: "lo \<le> a \<Longrightarrow> a \<le> hi \<Longrightarrow> np_clip a lo hi = a"
  by (simp add: np_clip_def)

lemma np_clip_mono: "a \<le> b \<Longrightarrow> np_clip a lo hi \<le> np_clip b lo hi"
  by (simp add: np_clip_def min_def max_def)

subsection \<open>The blend weight as a function of the curvature\<close>

text \<open>With a positive blend zone the three branches are one clipped line.\<close>

lemma curvature_weight_clip:
  assumes "0 < blend_zone self"
  shows "curvature_weight self c =
           Inr (np_clip ((c - (curvature_threshold self - blend_zone self)) / (2 * blend_zone self)) 0 1)"
proof -
  let ?t = "curvature_threshold self" and ?bz = "blend_zone self"
  let ?r = "(c - (?t - ?bz)) / (2 * ?bz)"
  have pos: "0 < 2 * ?bz" using assms by simp
  consider "c < ?t - ?bz" | "?t + ?bz < c" | "?t - ?bz \<le> c" "c \<le> ?t + ?bz" by linarith
  then show ?thesis
  proof cases
    case 1
    then have "?r < 0" using pos by (simp add: divide_neg_pos)
    then have "np_clip ?r 0 1 = 0" by (simp add: np_clip_def)
    with 1 show ?thesis by (simp add: curvature_weight_def)
  next
    case 2
    then have "1 < ?r" using pos by (simp add: field_simps)
    then have "np_clip ?r 0 1 = 1" by (simp add: np_clip_def)
    with 2 assms show ?thesis by (simp add: curvature_weight_def)
  next
    case 3
    with assms show ?thesis by (simp add: curvature_weight_def)
  qed
qed

text \<open>
  Claim C5. For a positive blend zone, the weight that \<^verbatim>\<open>compute_blend_weight\<close> derives from
  the curvature, before the speed adjustment (it is the whole result when no speed is
  passed), is 0 below \<open>threshold - blend_zone\<close>, 1 above \<open>threshold + blend_zone\<close>, the line
  \<open>(curvature - (threshold - blend_zone)) / (2 * blend_zone)\<close> on the band between them,
  non-decreasing in the curvature, and continuous at the two edges of the band.
\<close>

theorem blend_weight_ramp:
  assumes "0 < blend_zone self"
  shows "(\<forall>c. c < curvature_threshold self - blend_zone self \<longrightarrow> curvature_weight self c = Inr 0)
       \<and> (\<forall>c. c > curvature_threshold self + blend_zone self \<longrightarrow> curvature_weight self c = Inr 1)
       \<and> (\<forall>c. curvature_threshold self - blend_zone self \<le> c
                \<and> c \<le> curvature_threshold self + blend_zone self \<longrightarrow>
              curvature_weight self c =
                Inr ((c - (curvature_threshold self - blend_zone self)) / (2 * blend_zone self)))
       \<and> (\<forall>c1 c2. c1 \<le> c2 \<longrightarrow>
              (\<exists>w1 w2. curvature_weight self c1 = Inr w1 \<and> curvature_weight self c2 = Inr w2
                        \<and> w1 \<le> w2))
       \<and> isCont (\<lambda>c. projr (curvature_weight self c)) (curvature_threshold self - blend_zone self)
       \<and> isCont (\<lambda>c. projr (curvature_weight self c)) (curvature_threshold self + blend_zone self)
       \<and> (\<forall>c. compute_blend_weight self c None = curvature_weight self c)"
proof -
  let ?t = "curvature_threshold self" and ?bz = "blend_zone self"
  let ?r = "\<lambda>c. (c - (?t - ?bz)) / (2 * ?bz)"
  have pos: "0 < 2 * ?bz" using assms by simp
  have eq: "curvature_weight self c = Inr (np_clip (?r c) 0 1)" for c
    by (rule curvature_weight_clip [OF assms])
  have below: "curvature_weight self c = Inr 0" if "c < ?t - ?bz" for c
    using that by (simp add: curvature_weight_def)
  have above: "curvature_weight self c = Inr 1" if "c > ?t + ?bz" for c
    using that assms by (simp add: curvature_weight_def)
  have inside: "curvature_weight self c = Inr (?r c)" if "?t - ?bz \<le> c" "c \<le> ?t + ?bz" for c
  proof -
    have "0 \<le> ?r c" using that pos by simp
    moreover have "?r c \<le> 1" using that pos by (simp add: field_simps)
    ultimately show ?thesis by (simp add: eq np_clip_id)
  qed
  have mono: "\<exists>w1 w2. curvature_weight self c1 = Inr w1 \<and> curvature_weight self c2 = Inr w2 \<and> w1 \<le> w2"
    if "c1 \<le> c2" for c1 c2
  proof -
    have "?r c1 \<le> ?r c2" using that pos by (simp add: divide_right_mono)
    then have "np_clip (?r c1) 0 1 \<le> np_clip (?r c2) 0 1" by (rule np_clip_mono)
    then show ?thesis by (simp add: eq)
  qed
  have fun_eq: "(\<lambda>c. projr (curvature_weight self c)) = (\<lambda>c. min (max (?r c) 0) 1)"
    by (rule ext) (simp add: eq np_clip_def)
  have cont: "isCont (\<lambda>c. projr (curvature_weight self c)) a" for a
    unfolding fun_eq using assms by (intro continuous_intros) simp_all
  have none: "compute_blend_weight self c None = curvature_weight self c" for c
    by (simp add: compute_blend_weight_def eq)
  show ?thesis
    using below above inside mono cont none by blast
qed

theorem blend_weight_ramp_witness:
  "0 < blend_zone cfg0
   \<and> curvature_weight cfg0 0.01 = Inr 0
   \<and> curvature_weight cfg0 0.1 = Inr 1
   \<and> curvature_weight cfg0 0.06 = Inr (3 / 4)
   \<and> compute_blend_weight cfg0 0.06 None = Inr (3 / 4)"
proof -
  have h: "0 < blend_zone cfg0" by (simp add: cfg0_def)
  note r = blend_weight_ramp [OF h]
  show ?thesis using h r by (simp add: cfg0_def)
qed

subsection \<open>Evaluation on the concrete inputs\<close>

lemma sqrt_16: "sqrt 16 = 4"
proof -
  show ?thesis using real_sqrt_abs [of 4] by simp
qed

lemma get_speed_veh0: "get_speed veh0 = 0"
  by (simp add: get_speed_def veh0_def)

lemma get_transform_veh0: "get_transform veh0 = origin_pose"
  by (simp add: veh0_def)

lemma closest_path1: "closest_loop (location origin_pose) path1 0 (None, 0) = (Some 4, 0)"
  by (simp add: path1_def wp_at_def origin_pose_def distance_def sqrt_16)

lemma path1_curvature: "estimate_path_curvature (location origin_pose) path1 10 = 0"
  by (simp add: estimate_path_curvature_def path1_def Let_def)

lemma hybrid_path1:
  "m \<noteq> ''switching'' \<Longrightarrow> m \<noteq> ''blending'' \<Longrightarrow> Hybrid_run_step (cfg0\<lparr>mode := m\<rparr>) veh0 path1 =
     (cfg0\<lparr>mode := m, current_curvature := 0,
           pure_pursuit := \<lparr>lookahead_distance = 2, pp_wheelbase = 2.875, pp_target_speed = 30\<rparr>,
           stanley := \<lparr>stanley_k = 1, stanley_wheelbase = 2.875, stanley_target_speed = 30\<rparr>,
           active_controller := ''Pure Pursuit'', blend_weight := 0\<rparr>,
      Inr \<lparr>throttle = 0.5, steer = 0, brake = 0, hand_brake = False, reverse = False,
           manual_gear_shift = False, gear = 0\<rparr>)"
  apply (simp add: Hybrid_run_step_def Let_def path1_curvature get_speed_veh0 get_transform_veh0)
  apply (simp add: cfg0_def adaptive_lookahead_def adaptive_stanley_gain_def PP_run_step_def PP_find_lookahead_point_def
     get_transform_veh0 closest_path1 get_speed_veh0)
  apply (simp add: lookahead_from_def path1_def wp_at_def origin_pose_def distance_def sqrt_16 PP_compute_steering_def
       zero_rotation_def np_radians_def np_clip_def VehicleControl_default_def get_speed_veh0)
  done

lemma turn_closest: "closest_loop (location origin_pose) path_turn 0 (None, 0) = (Some 0, 0)"
  by (simp add: path_turn_def wp_at_def origin_pose_def distance_def)

lemma turn_curv: "estimate_path_curvature (location origin_pose) path_turn 10 = pi / 2"
  apply (simp add: estimate_path_curvature_def turn_closest)
  apply (simp add: path_turn_def wp_at_def Let_def upt_rec np_arctan2_def)
  done

subsection \<open>The nearest-waypoint scan finds the nearest waypoint\<close>

lemma nearest_index_unique:
  "nearest_index p path i \<Longrightarrow> nearest_index p path j \<Longrightarrow> i = j"
  unfolding nearest_index_def by (metis linorder_neqE_nat not_less)

lemma closest_loop_find_closest_loop:
  "closest_loop p ws i (m, c) =
     (case find_closest_loop p ws i (m, w, c) of (m', w', c') \<Rightarrow> (m', c'))"
  by (induction ws arbitrary: i m w c) (simp_all add: Let_def)

text \<open>The loop invariant: after the prefix \<open>pre\<close> the state holds the nearest index of \<open>pre\<close>.\<close>

lemma find_closest_loop_step:
  assumes "nearest_index p pre c"
  shows "\<exists>c'. find_closest_loop p ws (length pre)
                 (Some (distance p (location (transform (pre ! c)))), Some (pre ! c), c)
               = (Some (distance p (location (transform ((pre @ ws) ! c')))), Some ((pre @ ws) ! c'), c')
             \<and> nearest_index p (pre @ ws) c'"
  using assms
proof (induction ws arbitrary: pre c)
  case Nil
  then show ?case by auto
next
  case (Cons w rest)
  let ?D = "\<lambda>u. distance p (location (transform u))"
  from Cons.prems have c: "c < length pre"
    and le: "\<And>j. j < length pre \<Longrightarrow> ?D (pre ! c) \<le> ?D (pre ! j)"
    and lt: "\<And>j. j < c \<Longrightarrow> ?D (pre ! c) < ?D (pre ! j)"
    by (auto simp: nearest_index_def)
  show ?case
  proof (cases "?D w < ?D (pre ! c)")
    case True
    have "nearest_index p (pre @ [w]) (length pre)"
      unfolding nearest_index_def
    proof (intro conjI allI impI)
      show "length pre < length (pre @ [w])" by simp
    next
      fix j assume "j < length (pre @ [w])"
      then show "?D ((pre @ [w]) ! length pre) \<le> ?D ((pre @ [w]) ! j)"
        using True le [of j] by (cases "j = length pre") (auto simp: nth_append)
    next
      fix j assume "j < length pre"
      then show "?D ((pre @ [w]) ! length pre) < ?D ((pre @ [w]) ! j)"
        using True le [of j] by (auto simp: nth_append)
    qed
    from Cons.IH [OF this] True show ?thesis by (simp add: Let_def)
  next
    case False
    have "nearest_index p (pre @ [w]) c"
      unfolding nearest_index_def
    proof (intro conjI allI impI)
      show "c < length (pre @ [w])" using c by simp
    next
      fix j assume "j < length (pre @ [w])"
      then show "?D ((pre @ [w]) ! c) \<le> ?D ((pre @ [w]) ! j)"
        using False le [of j] c by (cases "j = length pre") (auto simp: nth_append)
    next
      fix j assume "j < c"
      then show "?D ((pre @ [w]) ! c) < ?D ((pre @ [w]) ! j)"
        using lt [of j] c by (auto simp: nth_append)
    qed
    from Cons.IH [OF this] False c show ?thesis by (simp add: Let_def nth_append)
  qed
qed

lemma find_closest_waypoint_nearest:
  assumes "path \<noteq> []"
  shows "\<exists>i. find_closest_waypoint p path
               = (Some (path ! i), i, Some (distance p (location (transform (path ! i)))))
            \<and> nearest_index p path i"
proof -
  obtain w rest where path: "path = w # rest" using assms by (cases path) auto
  have "nearest_index p [w] 0" by (simp add: nearest_index_def)
  from find_closest_loop_step [OF this, of rest]
  show ?thesis by (auto simp: find_closest_waypoint_def path Let_def)
qed

lemma closest_loop_nearest:
  assumes "path \<noteq> []"
  shows "\<exists>i. closest_loop p path 0 (None, 0)
               = (Some (distance p (location (transform (path ! i)))), i)
            \<and> nearest_index p path i"
proof -
  from find_closest_waypoint_nearest [OF assms, of p] obtain i where
    "find_closest_waypoint p path = (Some (path ! i), i, Some (distance p (location (transform (path ! i)))))"
    "nearest_index p path i" by blast
  then show ?thesis
    by (auto simp: closest_loop_find_closest_loop [where w = None] find_closest_waypoint_def
        split: prod.splits)
qed

subsection \<open>The pure-pursuit steering law\<close>

text \<open>
  Claim C2. For every pose, target and wheelbase, \<^verbatim>\<open>PurePursuitController.compute_steering\<close>
  returns \<open>atan(curvature * wheelbase) / radians(70)\<close> clipped to \<open>[-1, 1]\<close>, where the
  curvature is \<open>2 * local_y / L\<^sup>2\<close> if \<open>L\<^sup>2 = local_x\<^sup>2 + local_y\<^sup>2 > 0.01\<close> and 0 otherwise,
  for the target \<open>(local_x, local_y)\<close> in the vehicle frame; and the steering is exactly 0
  whenever \<open>local_y = 0\<close>.
\<close>

theorem pure_pursuit_steering_law:
  "PP_compute_steering self pose target =
     pure_pursuit_law (fst (to_vehicle_frame pose target)) (snd (to_vehicle_frame pose target))
       (pp_wheelbase self)
   \<and> (snd (to_vehicle_frame pose target) = 0 \<longrightarrow> PP_compute_steering self pose target = 0)"
proof -
  have eq: "PP_compute_steering self pose target =
     pure_pursuit_law (fst (to_vehicle_frame pose target)) (snd (to_vehicle_frame pose target))
       (pp_wheelbase self)"
    by (simp add: PP_compute_steering_def pure_pursuit_law_def to_vehicle_frame_def Let_def)
  have zero: "pure_pursuit_law lx 0 wb = 0" for lx wb
    by (simp add: pure_pursuit_law_def Let_def np_clip_def)
  show ?thesis using eq zero by simp
qed

theorem pure_pursuit_steering_law_witness:
  "snd (to_vehicle_frame origin_pose \<lparr>loc_x = 4, loc_y = 0, loc_z = 0\<rparr>) = 0
   \<and> PP_compute_steering (pure_pursuit cfg0) origin_pose \<lparr>loc_x = 4, loc_y = 0, loc_z = 0\<rparr> = 0"
proof -
  have h: "snd (to_vehicle_frame origin_pose \<lparr>loc_x = 4, loc_y = 0, loc_z = 0\<rparr>) = 0"
    by (simp add: to_vehicle_frame_def origin_pose_def zero_rotation_def np_radians_def)
  show ?thesis
    using h pure_pursuit_steering_law [of "pure_pursuit cfg0" origin_pose "\<lparr>loc_x = 4, loc_y = 0, loc_z = 0\<rparr>"]
    by simp
qed

subsection \<open>The lookahead search\<close>

lemma lookahead_loop_find:
  "lookahead_loop ld p path js =
     map_option (\<lambda>j. location (transform (path ! j)))
       (List.find (\<lambda>j. ld \<le> distance p (location (transform (path ! j)))) js)"
  by (induction js) (simp_all add: Let_def)

text \<open>
  Claim C7. From a nearest index \<open>i\<close> inside a path, the lookahead search returns the
  position of the first waypoint among the indices \<open>i, ..., i + 49\<close> of the path whose
  distance from the vehicle is at least the lookahead distance; when there is none, it
  returns the waypoint at \<open>i + 30\<close> if that is an index of the path, and the last
  waypoint of the path otherwise.
\<close>

theorem lookahead_search:
  assumes "i < length path"
  shows "(\<forall>j. i \<le> j \<and> j < i + 50 \<and> j < length path
              \<and> lookahead_distance self \<le> distance p (location (transform (path ! j)))
              \<and> (\<forall>k. i \<le> k \<and> k < j \<longrightarrow>
                     distance p (location (transform (path ! k))) < lookahead_distance self)
            \<longrightarrow> lookahead_from self p path i = Inr (Some (location (transform (path ! j)))))
       \<and> ((\<forall>j. i \<le> j \<and> j < i + 50 \<and> j < length path
               \<longrightarrow> distance p (location (transform (path ! j))) < lookahead_distance self)
            \<longrightarrow> lookahead_from self p path i =
                  Inr (Some (location (transform
                    (if i + 30 < length path then path ! (i + 30) else last path)))))"
proof -
  let ?P = "\<lambda>j. lookahead_distance self \<le> distance p (location (transform (path ! j)))"
  let ?b = "min (i + 50) (length path)"
  have found: "lookahead_from self p path i = Inr (Some (location (transform (path ! j))))"
    if j: "i \<le> j" "j < i + 50" "j < length path" "?P j"
      and first: "\<forall>k. i \<le> k \<and> k < j \<longrightarrow> \<not> ?P k" for j
  proof -
    have "List.find ?P [i ..< ?b] = Some j"
      unfolding find_Some_iff
    proof (intro exI [of _ "j - i"] conjI allI impI)
      show "j - i < length [i ..< ?b]" using j by simp
      show "?P ([i ..< ?b] ! (j - i))" using j by simp
      show "j = [i ..< ?b] ! (j - i)" using j by simp
    next
      fix m assume "m < j - i"
      then have "i + m < ?b" using j by linarith
      then have "[i ..< ?b] ! m = i + m" by (rule nth_upt)
      moreover have "i \<le> i + m" "i + m < j" using \<open>m < j - i\<close> by simp_all
      ultimately have "[i ..< ?b] ! m = i + m" "i \<le> i + m" "i + m < j" by simp_all
      then show "\<not> ?P ([i ..< ?b] ! m)" using first by metis
    qed
    then show ?thesis by (simp add: lookahead_from_def lookahead_loop_find)
  qed
  have missing: "lookahead_from self p path i =
      Inr (Some (location (transform (if i + 30 < length path then path ! (i + 30) else last path))))"
    if none: "\<forall>j. i \<le> j \<and> j < i + 50 \<and> j < length path \<longrightarrow> \<not> ?P j"
  proof -
    have "List.find ?P [i ..< ?b] = None"
      unfolding find_None_iff using none by auto
    moreover have "path \<noteq> []" using assms by auto
    ultimately show ?thesis by (simp add: lookahead_from_def lookahead_loop_find)
  qed
  show ?thesis
    using found missing by (simp add: not_le)
qed

theorem lookahead_search_witness:
  "(0::nat) < length path1
   \<and> lookahead_from (pure_pursuit cfg0) (location origin_pose) path1 0
       = Inr (Some \<lparr>loc_x = 4, loc_y = 0, loc_z = 0\<rparr>)
   \<and> lookahead_from ((pure_pursuit cfg0)\<lparr>lookahead_distance := 6\<rparr>) (location origin_pose) path1 0
       = Inr (Some \<lparr>loc_x = 4, loc_y = 0, loc_z = 0\<rparr>)"
proof -
  have h: "(0::nat) < length path1" by (simp add: path1_def)
  have d: "distance (location origin_pose) (location (transform (path1 ! 0))) = 4"
    by (simp add: path1_def wp_at_def origin_pose_def distance_def sqrt_16)
  have l: "lookahead_distance (pure_pursuit cfg0) = 3" by (simp add: cfg0_def)
  have w: "location (transform (path1 ! 0)) = \<lparr>loc_x = 4, loc_y = 0, loc_z = 0\<rparr>"
          "location (transform (last path1)) = \<lparr>loc_x = 4, loc_y = 0, loc_z = 0\<rparr>"
    by (simp_all add: path1_def wp_at_def)
  have len: "length path1 = 1" by (simp add: path1_def)
  have a: "lookahead_from (pure_pursuit cfg0) (location origin_pose) path1 0
       = Inr (Some \<lparr>loc_x = 4, loc_y = 0, loc_z = 0\<rparr>)"
  proof -
    note r = lookahead_search [OF h, of "pure_pursuit cfg0" "location origin_pose", THEN conjunct1, rule_format, of 0]
    show ?thesis using r d l w h by simp
  qed
  have b: "lookahead_from ((pure_pursuit cfg0)\<lparr>lookahead_distance := 6\<rparr>) (location origin_pose) path1 0
       = Inr (Some \<lparr>loc_x = 4, loc_y = 0, loc_z = 0\<rparr>)"
  proof -
    note r = lookahead_search [OF h, of "(pure_pursuit cfg0)\<lparr>lookahead_distance := 6\<rparr>" "location origin_pose", THEN conjunct2, THEN mp]
    have "\<forall>j. 0 \<le> j \<and> j < 0 + 50 \<and> j < length path1 \<longrightarrow>
            distance (location origin_pose) (location (transform (path1 ! j)))
              < lookahead_distance ((pure_pursuit cfg0)\<lparr>lookahead_distance := 6\<rparr>)"
      using d by (simp add: len)
    from r [OF this] show ?thesis using w by (simp add: len)
  qed
  show ?thesis using h a b by simp
qed

text \<open>\<^verbatim>\<open>find_lookahead_point\<close> starts that search at the nearest index.\<close>

lemma PP_find_lookahead_point_nearest:
  assumes "path \<noteq> []"
  shows "\<exists>i. nearest_index p path i
           \<and> PP_find_lookahead_point self p pose path = lookahead_from self p path i"
  using closest_loop_nearest [OF assms, of p]
  by (auto simp: PP_find_lookahead_point_def)

subsection \<open>The invariant of the returned command\<close>

lemma lookahead_from_nonempty:
  assumes "path \<noteq> []"
  shows "\<exists>t. lookahead_from self p path i = Inr (Some t)"
  using assms by (simp add: lookahead_from_def split: option.split)

lemma PP_run_step_nonempty:
  assumes "path \<noteq> []"
  shows "\<exists>c. PP_run_step self vehicle path = Inr c \<and> ControlCommand_invariant c"
proof -
  have "\<exists>t. PP_find_lookahead_point self (location (get_transform vehicle)) (get_transform vehicle) path
      = Inr (Some t)"
    by (simp add: PP_find_lookahead_point_def lookahead_from_nonempty [OF assms] split: prod.split)
  then obtain t where "PP_find_lookahead_point self (location (get_transform vehicle)) (get_transform vehicle) path
      = Inr (Some t)" by blast
  moreover have "- 1 \<le> PP_compute_steering self tf t \<and> PP_compute_steering self tf t \<le> 1" for tf
    unfolding PP_compute_steering_def Let_def using np_clip_bounds [of "- 1" 1] by simp
  ultimately show ?thesis
    by (simp add: PP_run_step_def Let_def ControlCommand_invariant_def VehicleControl_default_def)
qed

lemma Stanley_compute_steering_nonempty:
  assumes "path \<noteq> []"
  shows "\<exists>s. Stanley_compute_steering self pose speed path = Inr s \<and> - 1 \<le> s \<and> s \<le> 1"
proof -
  obtain i where "find_closest_waypoint (location pose) path
      = (Some (path ! i), i, Some (distance (location pose) (location (transform (path ! i)))))"
    using find_closest_waypoint_nearest [OF assms] by blast
  then show ?thesis
    unfolding Stanley_compute_steering_def Let_def using np_clip_bounds [of "- 1" 1] by simp
qed

lemma Stanley_run_step_nonempty:
  assumes "path \<noteq> []"
  shows "\<exists>c. Stanley_run_step self vehicle path = Inr c \<and> ControlCommand_invariant c"
proof -
  obtain s where "Stanley_compute_steering self (get_transform vehicle) (get_speed vehicle) path = Inr s"
    "- 1 \<le> s" "s \<le> 1"
    using Stanley_compute_steering_nonempty [OF assms] by blast
  then show ?thesis
    by (simp add: Stanley_run_step_def Let_def ControlCommand_invariant_def VehicleControl_default_def)
qed

lemma compute_blend_weight_defined:
  assumes "blend_zone self \<noteq> 0"
  shows "\<exists>w. compute_blend_weight self c speed = Inr w"
  using assms by (simp add: compute_blend_weight_def curvature_weight_def Let_def split: option.split)

lemma Hybrid_run_step_nonempty:
  assumes "path \<noteq> []" and "blend_zone self \<noteq> 0"
  shows "\<exists>c. snd (Hybrid_run_step self vehicle path) = Inr c \<and> ControlCommand_invariant c"
proof -
  define self' where "self' = (let self1 = self\<lparr>current_curvature := estimate_path_curvature (location (get_transform vehicle)) path 10\<rparr> in
     if speed_adaptive self1
                  then self1\<lparr>pure_pursuit := (pure_pursuit self1)
                                \<lparr>lookahead_distance := adaptive_lookahead (get_speed vehicle)\<rparr>,
                             stanley := (stanley self1)
                                \<lparr>stanley_k := adaptive_stanley_gain (get_speed vehicle)\<rparr>\<rparr>
                  else self1)"
  obtain pc where pc: "PP_run_step (pure_pursuit self') vehicle path = Inr pc" "ControlCommand_invariant pc"
    using PP_run_step_nonempty [OF assms(1)] by blast
  obtain sc where sc: "Stanley_run_step (stanley self') vehicle path = Inr sc" "ControlCommand_invariant sc"
    using Stanley_run_step_nonempty [OF assms(1)] by blast
  have "blend_zone self' \<noteq> 0" using assms(2) by (simp add: self'_def Let_def)
  then obtain w where w: "compute_blend_weight self' (estimate_path_curvature (location (get_transform vehicle)) path 10) (Some (get_speed vehicle)) = Inr w"
    using compute_blend_weight_defined by blast
  have clip: "- 1 \<le> np_clip b (- 1) 1 \<and> np_clip b (- 1) 1 \<le> 1" for b
    using np_clip_bounds [of "- 1" 1] by simp
  have "Hybrid_run_step self vehicle path =
     (let curvature = estimate_path_curvature (location (get_transform vehicle)) path 10 in
      if mode self' = ''switching'' then
           (if curvature > curvature_threshold self'
            then (self'\<lparr>active_controller := ''Stanley''\<rparr>, Inr sc)
            else (self'\<lparr>active_controller := ''Pure Pursuit''\<rparr>, Inr pc))
      else if mode self' = ''blending'' then
         (let blended_steering = (1 - w) * steer pc + w * steer sc;
                               control = VehicleControl_default
                                 \<lparr>steer := np_clip blended_steering (- 1.0) 1.0,
                                  throttle := throttle pc,
                                  brake := brake pc,
                                  hand_brake := False, manual_gear_shift := False\<rparr>;
                               label = (if w < 0.3 then ''Pure Pursuit (blended)''
                                        else if w > 0.7 then ''Stanley (blended)''
                                        else ''Hybrid (50/50)'')
                           in (self'\<lparr>blend_weight := w, active_controller := label\<rparr>,
                               Inr control))
      else (let use_stanley =
                  (if curvature > curvature_threshold self' + blend_zone self' then True
                   else if curvature > curvature_threshold self' \<and> get_speed vehicle < 8.0 then True
                   else False)
            in if use_stanley
               then (self'\<lparr>active_controller := ''Stanley'', blend_weight := 1.0\<rparr>, Inr sc)
               else (self'\<lparr>active_controller := ''Pure Pursuit'', blend_weight := 0.0\<rparr>, Inr pc)))"
    unfolding Hybrid_run_step_def Let_def self'_def [symmetric, unfolded Let_def]
    by (simp only: pc sc w sum.case)
  then show ?thesis
    using pc(2) sc(2) clip
    by (auto simp: Let_def ControlCommand_invariant_def)
qed

text \<open>
  Claim C1. On a non-empty path, and with a blend zone that is not 0 (the divisor of the
  blend weight), \<^verbatim>\<open>run_step\<close> of the pure-pursuit tracker, of the Stanley tracker and of
  the hybrid controller in every mode returns a command, and the command satisfies the
  invariant: the steering is in \<open>[-1, 1]\<close>, and whenever one of throttle and brake is not 0
  the other is 0.
\<close>

theorem run_step_invariant:
  assumes "path \<noteq> []" and "blend_zone hybrid \<noteq> 0"
  shows "(\<exists>c. PP_run_step pp vehicle path = Inr c \<and> ControlCommand_invariant c)
       \<and> (\<exists>c. Stanley_run_step st vehicle path = Inr c \<and> ControlCommand_invariant c)
       \<and> (\<exists>c. snd (Hybrid_run_step hybrid vehicle path) = Inr c \<and> ControlCommand_invariant c)"
  using PP_run_step_nonempty [OF assms(1)] Stanley_run_step_nonempty [OF assms(1)]
    Hybrid_run_step_nonempty [OF assms] by blast

theorem run_step_invariant_witness:
  "path1 \<noteq> [] \<and> blend_zone cfg0 \<noteq> 0
   \<and> (\<exists>c. PP_run_step (pure_pursuit cfg0) veh0 path1 = Inr c \<and> ControlCommand_invariant c)
   \<and> (\<exists>c. Stanley_run_step (stanley cfg0) veh0 path1 = Inr c \<and> ControlCommand_invariant c)
   \<and> (\<exists>c. snd (Hybrid_run_step (cfg0\<lparr>mode := ''blending''\<rparr>) veh0 path1) = Inr c
            \<and> ControlCommand_invariant c)"
proof -
  have h1: "path1 \<noteq> []" by (simp add: path1_def)
  have h2: "blend_zone (cfg0\<lparr>mode := ''blending''\<rparr>) \<noteq> 0" by (simp add: cfg0_def)
  show ?thesis
    using h1 h2 run_step_invariant [OF h1 h2, of "pure_pursuit cfg0" veh0 "stanley cfg0"]
    by simp
qed

text \<open>A path of fewer than 4 waypoints leaves the estimate at its first \<^verbatim>\<open>return 0.0\<close>.\<close>

lemma curvature_short_path:
  assumes "length path < 4"
  shows "estimate_path_curvature p path 10 = 0"
proof -
  obtain m c where cl: "closest_loop p path 0 (None, 0) = (m, c)"
    by (cases "closest_loop p path 0 (None, 0)")
  have "min (int c + 10) (int (length path) - 1) - int c < 3" using assms by linarith
  then show ?thesis
    by (simp add: estimate_path_curvature_def cl Let_def)
qed

text \<open>
  The blend zone must not be 0 in blending mode. With threshold 0 and a path of fewer
  than 4 waypoints the curvature is the Python float 0.0, the weight is \<open>0.0 / 0.0\<close>, and
  \<^verbatim>\<open>run_step\<close> raises ZeroDivisionError.
\<close>

lemma blending_zero_division:
  assumes "path \<noteq> []" and "length path < 4" and "mode self = ''blending''"
    and "blend_zone self = 0" and "curvature_threshold self = 0"
  shows "snd (Hybrid_run_step self vehicle path) = Inl ZeroDivisionError"
proof -
  define c where "c = estimate_path_curvature (location (get_transform vehicle)) path 10"
  have c0: "c = 0" unfolding c_def by (rule curvature_short_path [OF assms(2)])
  define self' where "self' =
     (if speed_adaptive (self\<lparr>current_curvature := c\<rparr>)
      then self\<lparr>current_curvature := c\<rparr>
             \<lparr>pure_pursuit := (pure_pursuit (self\<lparr>current_curvature := c\<rparr>))
                                \<lparr>lookahead_distance := adaptive_lookahead (get_speed vehicle)\<rparr>,
              stanley := (stanley (self\<lparr>current_curvature := c\<rparr>))
                                \<lparr>stanley_k := adaptive_stanley_gain (get_speed vehicle)\<rparr>\<rparr>
      else self\<lparr>current_curvature := c\<rparr>)"
  obtain pc where pc: "PP_run_step (pure_pursuit self') vehicle path = Inr pc"
    using PP_run_step_nonempty [OF assms(1)] by blast
  obtain sc where sc: "Stanley_run_step (stanley self') vehicle path = Inr sc"
    using Stanley_run_step_nonempty [OF assms(1)] by blast
  have m: "mode self' = ''blending''" "mode self' \<noteq> ''switching''"
    using assms(3) by (simp_all add: self'_def)
  have "curvature_threshold self' = c" "blend_zone self' = 0"
    using assms(4,5) c0 by (simp_all add: self'_def)
  then have w: "compute_blend_weight self' c (Some (get_speed vehicle)) = Inl ZeroDivisionError"
    by (simp add: compute_blend_weight_def curvature_weight_def)
  have "Hybrid_run_step self vehicle path = (self', Inl ZeroDivisionError)"
    unfolding Hybrid_run_step_def Let_def c_def [symmetric] self'_def [symmetric]
    by (simp only: m pc sc w sum.case) simp
  then show ?thesis by simp
qed

lemma blending_with_zero_blend_zone:
  "snd (Hybrid_run_step (cfg0\<lparr>mode := ''blending'', curvature_threshold := 0, blend_zone := 0\<rparr>)
         veh0 path1) = Inl ZeroDivisionError"
  by (rule blending_zero_division) (simp_all add: path1_def)

subsection \<open>The modes of the hybrid controller\<close>

text \<open>
  Claim C6. In adaptive mode, with \<open>c\<close> the curvature estimate and \<open>v\<close> the speed, the
  controller returns the result of the Stanley tracker exactly when
  \<open>c > threshold + blend_zone\<close>, or \<open>c > threshold\<close> and \<open>v < 8\<close>, and the result of the
  pure-pursuit tracker otherwise; the recorded blend weight is 1 in the first case and 0
  in the second.
\<close>

theorem adaptive_mode_selection:
  assumes "mode self = ''adaptive''"
  shows "(let c = estimate_path_curvature (location (get_transform vehicle)) waypoints 10;
              v = get_speed vehicle;
              R = Hybrid_run_step self vehicle waypoints
          in if c > curvature_threshold self + blend_zone self
                \<or> (c > curvature_threshold self \<and> v < 8)
             then active_controller (fst R) = ''Stanley'' \<and> blend_weight (fst R) = 1
                  \<and> snd R = Stanley_run_step (stanley (fst R)) vehicle waypoints
             else active_controller (fst R) = ''Pure Pursuit'' \<and> blend_weight (fst R) = 0
                  \<and> snd R = PP_run_step (pure_pursuit (fst R)) vehicle waypoints)"
  using assms by (auto simp add: Hybrid_run_step_def Let_def)

theorem adaptive_mode_selection_witness:
  "mode cfg0 = ''adaptive''
   \<and> active_controller (fst (Hybrid_run_step cfg0 veh0 path1)) = ''Pure Pursuit''
   \<and> blend_weight (fst (Hybrid_run_step cfg0 veh0 path1)) = 0
   \<and> snd (Hybrid_run_step cfg0 veh0 path1)
       = PP_run_step (pure_pursuit (fst (Hybrid_run_step cfg0 veh0 path1))) veh0 path1
   \<and> active_controller (fst (Hybrid_run_step cfg0 veh0 path_turn)) = ''Stanley''
   \<and> blend_weight (fst (Hybrid_run_step cfg0 veh0 path_turn)) = 1
   \<and> snd (Hybrid_run_step cfg0 veh0 path_turn)
       = Stanley_run_step (stanley (fst (Hybrid_run_step cfg0 veh0 path_turn))) veh0 path_turn"
proof -
  have h: "mode cfg0 = ''adaptive''" by (simp add: cfg0_def)
  have t: "curvature_threshold cfg0 = 0.05" "blend_zone cfg0 = 0.02" by (simp_all add: cfg0_def)
  have big: "7 < 50 * pi" using pi_ge_two by linarith
  show ?thesis
    using h adaptive_mode_selection [OF h, of veh0 path1] adaptive_mode_selection [OF h, of veh0 path_turn]
    by (simp add: Let_def get_transform_veh0 path1_curvature turn_curv get_speed_veh0 t big)
qed

text \<open>
  Claim C10. Every mode string other than \<^verbatim>\<open>'switching'\<close> and \<^verbatim>\<open>'blending'\<close> behaves as
  \<^verbatim>\<open>'adaptive'\<close>: on the same inputs and prior state \<^verbatim>\<open>run_step\<close> gives the same command
  (or the same error), the same telemetry, and the same controller up to the mode string
  itself. No branch raises an error for an unrecognised mode.
\<close>

theorem unrecognised_mode_is_adaptive:
  assumes "m \<noteq> ''switching''" and "m \<noteq> ''blending''"
  shows "snd (Hybrid_run_step (self\<lparr>mode := m\<rparr>) vehicle waypoints)
           = snd (Hybrid_run_step (self\<lparr>mode := ''adaptive''\<rparr>) vehicle waypoints)
       \<and> get_controller_info (fst (Hybrid_run_step (self\<lparr>mode := m\<rparr>) vehicle waypoints))
           = get_controller_info (fst (Hybrid_run_step (self\<lparr>mode := ''adaptive''\<rparr>) vehicle waypoints))
       \<and> fst (Hybrid_run_step (self\<lparr>mode := m\<rparr>) vehicle waypoints)
           = (fst (Hybrid_run_step (self\<lparr>mode := ''adaptive''\<rparr>) vehicle waypoints))\<lparr>mode := m\<rparr>"
  using assms by (simp add: Hybrid_run_step_def Let_def get_controller_info_def)

theorem unrecognised_mode_is_adaptive_witness:
  "snd (Hybrid_run_step (cfg0\<lparr>mode := ''manual''\<rparr>) veh0 path1)
     = Inr \<lparr>throttle = 0.5, steer = 0, brake = 0, hand_brake = False, reverse = False,
           manual_gear_shift = False, gear = 0\<rparr>
   \<and> snd (Hybrid_run_step (cfg0\<lparr>mode := ''adaptive''\<rparr>) veh0 path1)
     = Inr \<lparr>throttle = 0.5, steer = 0, brake = 0, hand_brake = False, reverse = False,
           manual_gear_shift = False, gear = 0\<rparr>
   \<and> get_controller_info (fst (Hybrid_run_step (cfg0\<lparr>mode := ''manual''\<rparr>) veh0 path1))
     = get_controller_info (fst (Hybrid_run_step (cfg0\<lparr>mode := ''adaptive''\<rparr>) veh0 path1))"
proof -
  have h1: "''manual'' \<noteq> ''switching''" and h2: "''manual'' \<noteq> ''blending''" by simp_all
  have e: "snd (Hybrid_run_step (cfg0\<lparr>mode := ''adaptive''\<rparr>) veh0 path1)
     = Inr \<lparr>throttle = 0.5, steer = 0, brake = 0, hand_brake = False, reverse = False,
           manual_gear_shift = False, gear = 0\<rparr>"
    by (simp add: hybrid_path1)
  show ?thesis
    using unrecognised_mode_is_adaptive [OF h1 h2, of cfg0 veh0 path1] e
    by (simp add: get_controller_info_def)
qed

subsection \<open>Speed-adaptive scheduling\<close>

lemma scheduled_trackers:
  "pure_pursuit (fst (Hybrid_run_step self vehicle waypoints)) =
     (if speed_adaptive self
      then (pure_pursuit self)\<lparr>lookahead_distance := adaptive_lookahead (get_speed vehicle)\<rparr>
      else pure_pursuit self)"
  "stanley (fst (Hybrid_run_step self vehicle waypoints)) =
     (if speed_adaptive self
      then (stanley self)\<lparr>stanley_k := adaptive_stanley_gain (get_speed vehicle)\<rparr>
      else stanley self)"
  by (simp_all add: Hybrid_run_step_def Let_def split: sum.splits)

text \<open>
  Claim C9, as the specification states it, fails: the scheduled lookahead distance and
  gain are assigned to the fields of the two trackers and are still there after
  \<^verbatim>\<open>run_step\<close> has returned. Here the configured values 3 and 0.5 have become 2 and 1.
\<close>

theorem scheduled_parameters_restored_counterexample:
  "lookahead_distance (pure_pursuit cfg0) = 3
   \<and> lookahead_distance (pure_pursuit (fst (Hybrid_run_step cfg0 veh0 path1))) = 2
   \<and> stanley_k (stanley cfg0) = 0.5
   \<and> stanley_k (stanley (fst (Hybrid_run_step cfg0 veh0 path1))) = 1"
  by (simp add: scheduled_trackers adaptive_lookahead_def adaptive_stanley_gain_def get_speed_veh0)
     (simp add: cfg0_def)

text \<open>
  Claim C9, amended. When speed-adaptive scheduling is enabled, after \<^verbatim>\<open>run_step\<close> the
  lookahead distance of the pure-pursuit tracker is \<open>min(2.0 + 0.3 * speed, 6.0)\<close> and the
  gain of the Stanley tracker is 1.0, 0.7 or 0.5 for a speed below 5, below 10, or
  higher, whatever they were before; the other fields of the trackers are unchanged.
  When scheduling is disabled the two trackers are unchanged.
\<close>

theorem scheduled_parameters_persist:
  "(let R = Hybrid_run_step self vehicle waypoints; v = get_speed vehicle
    in if speed_adaptive self
       then pure_pursuit (fst R) = (pure_pursuit self)\<lparr>lookahead_distance := min (2.0 + 0.3 * v) 6.0\<rparr>
            \<and> stanley (fst R) = (stanley self)\<lparr>stanley_k := (if v < 5 then 1.0 else if v < 10 then 0.7 else 0.5)\<rparr>
       else pure_pursuit (fst R) = pure_pursuit self \<and> stanley (fst R) = stanley self)"
  by (simp add: Hybrid_run_step_def Let_def adaptive_lookahead_def adaptive_stanley_gain_def mult.commute
      split: sum.splits)

theorem scheduled_parameters_persist_witness:
  "speed_adaptive cfg0
   \<and> pure_pursuit (fst (Hybrid_run_step cfg0 veh0 path1))
       = \<lparr>lookahead_distance = 2, pp_wheelbase = 2.875, pp_target_speed = 30\<rparr>
   \<and> stanley (fst (Hybrid_run_step cfg0 veh0 path1))
       = \<lparr>stanley_k = 1, stanley_wheelbase = 2.875, stanley_target_speed = 30\<rparr>"
proof -
  have h: "speed_adaptive cfg0" by (simp add: cfg0_def)
  have p: "pure_pursuit cfg0 = \<lparr>lookahead_distance = 3, pp_wheelbase = 2.875, pp_target_speed = 30\<rparr>"
    "stanley cfg0 = \<lparr>stanley_k = 0.5, stanley_wheelbase = 2.875, stanley_target_speed = 30\<rparr>"
    by (simp_all add: cfg0_def)
  show ?thesis
    using h scheduled_parameters_persist [of cfg0 veh0 path1]
    by (simp add: Let_def get_speed_veh0 p)
qed

subsection \<open>Wrapping an angle\<close>

text \<open>\<^verbatim>\<open>arctan2(sin a, cos a)\<close> is the angle \<open>a\<close> itself when \<open>a\<close> is in \<open>(-pi, pi]\<close>.\<close>

lemma np_arctan2_sin_cos:
  assumes "- pi < a" and "a \<le> pi"
  shows "np_arctan2 (sin a) (cos a) = a"
proof -
  consider "- (pi / 2) < a" "a < pi / 2" | "a = pi / 2" | "a = - (pi / 2)"
    | "pi / 2 < a" | "a < - (pi / 2)" by linarith
  then show ?thesis
  proof cases
    case 1
    then have "0 < cos a" by (simp add: cos_gt_zero_pi)
    moreover have "arctan (tan a) = a" using 1 by (simp add: arctan_tan)
    ultimately show ?thesis by (simp add: np_arctan2_def tan_def)
  next
    case 2
    show ?thesis unfolding 2 by (simp add: np_arctan2_def)
  next
    case 3
    show ?thesis unfolding 3 by (simp add: np_arctan2_def)
  next
    case 4
    define b where "b = a - pi"
    have b: "- (pi / 2) < b" "b \<le> 0" using 4 assms by (simp_all add: b_def)
    have a: "a = b + pi" by (simp add: b_def)
    have cb: "0 < cos b" using b by (simp add: cos_gt_zero_pi)
    have sb: "sin b \<le> 0" using b sin_ge_zero [of "- b"] by simp
    have "arctan (tan b) = b" using b by (simp add: arctan_tan)
    then show ?thesis
      using cb sb unfolding a by (simp add: np_arctan2_def tan_def)
  next
    case 5
    define b where "b = a + pi"
    have b: "0 < b" "b < pi / 2" using 5 assms by (simp_all add: b_def)
    have a: "a = b - pi" by (simp add: b_def)
    have cb: "0 < cos b" using b by (simp add: cos_gt_zero_pi)
    have sb: "0 < sin b" using b by (simp add: sin_gt_zero)
    have "arctan (tan b) = b" using b by (simp add: arctan_tan)
    then show ?thesis
      using cb sb unfolding a by (simp add: np_arctan2_def tan_def)
  qed
qed

text \<open>So it wraps: the result differs from \<open>a\<close> by a multiple of \<open>2 * pi\<close> and is in \<open>(-pi, pi]\<close>.\<close>

lemma wrap_angle_wraps:
  "\<exists>k::int. wrap_angle a = a - 2 * pi * of_int k \<and> - pi < wrap_angle a \<and> wrap_angle a \<le> pi"
proof -
  define k :: int where "k = \<lceil>(a - pi) / (2 * pi)\<rceil>"
  define b where "b = a - 2 * pi * of_int k"
  have "(a - pi) / (2 * pi) \<le> of_int k" by (simp add: k_def)
  then have up: "b \<le> pi" by (simp add: b_def field_simps)
  have "of_int k - 1 < (a - pi) / (2 * pi)" unfolding k_def by linarith
  then have lo: "- pi < b" by (simp add: b_def field_simps)
  have "sin b = sin a" "cos b = cos a"
    by (simp_all add: b_def sin_diff cos_diff sin_int_2pin cos_int_2pin)
  then have "wrap_angle a = b"
    using np_arctan2_sin_cos [OF lo up] by (simp add: wrap_angle_def)
  then show ?thesis using lo up b_def by blast
qed

subsection \<open>The Stanley steering law\<close>

text \<open>
  Claim C3. On a non-empty path, with \<open>w\<close> the nearest waypoint, the steering angle of
  \<^verbatim>\<open>StanleyController.compute_steering\<close> before normalisation is
  \<open>heading_error + atan(k * cross_track_error / max(speed, 0.1))\<close>, where the heading error
  is the wrapped difference of the path heading and the vehicle heading, the path
  heading is \<open>atan2\<close> of the displacement from \<open>w\<close> to the next waypoint when there is one
  and the stored heading of \<open>w\<close> otherwise, and the cross-track error is
  \<open>- dx * sin(yaw) + dy * cos(yaw)\<close> for the vector \<open>(dx, dy)\<close> from the vehicle to \<open>w\<close>; the
  result is that angle over \<open>radians(70)\<close>, clipped to \<open>[-1, 1]\<close>. When both errors are 0
  the returned steering is 0.
\<close>

theorem stanley_steering_law:
  assumes "path \<noteq> []"
  shows "\<exists>i. nearest_index (location pose) path i
     \<and> (let w = path ! i;
             heading = np_radians (yaw (rotation pose));
             path_heading =
               (if i + 1 < length path
                then np_arctan2 (loc_y (location (transform (path ! (i + 1)))) - loc_y (location (transform w)))
                                (loc_x (location (transform (path ! (i + 1)))) - loc_x (location (transform w)))
                else np_radians (yaw (rotation (transform w))));
             heading_error = wrap_angle (path_heading - heading);
             dx = loc_x (location (transform w)) - loc_x (location pose);
             dy = loc_y (location (transform w)) - loc_y (location pose);
             cross_track_error = - dx * sin heading + dy * cos heading;
             angle = heading_error + arctan (stanley_k self * cross_track_error / max speed 0.1)
         in Stanley_compute_steering self pose speed path
              = Inr (np_clip (angle / np_radians 70) (- 1) 1)
            \<and> (cross_track_error = 0 \<and> heading_error = 0
                 \<longrightarrow> Stanley_compute_steering self pose speed path = Inr 0))"
proof -
  obtain i where fc: "find_closest_waypoint (location pose) path
      = (Some (path ! i), i, Some (distance (location pose) (location (transform (path ! i)))))"
    and ni: "nearest_index (location pose) path i"
    using find_closest_waypoint_nearest [OF assms] by blast
  have zero: "np_clip (0 / np_radians 70) (- 1) 1 = 0" by (simp add: np_clip_def)
  have "Stanley_compute_steering self pose speed path
      = Inr (np_clip ((compute_heading_error pose (path ! i)
                         (if i + 1 < length path then Some (path ! (i + 1)) else None)
                       + arctan (stanley_k self * compute_cross_track_error pose (path ! i) / max speed 0.1))
                      / np_radians 70) (- 1) 1)"
    by (simp add: Stanley_compute_steering_def fc Let_def)
  then show ?thesis
    using ni zero
    by (intro exI [of _ i])
       (auto simp: Let_def compute_heading_error_def compute_cross_track_error_def wrap_angle_def)
qed

theorem stanley_steering_law_witness:
  "path1 \<noteq> [] \<and> Stanley_compute_steering (stanley cfg0) origin_pose 5 path1 = Inr 0"
proof -
  have h: "path1 \<noteq> []" by (simp add: path1_def)
  from stanley_steering_law [OF h, of origin_pose "stanley cfg0" 5]
  obtain i where ni: "nearest_index (location origin_pose) path1 i"
    and r: "(let w = path1 ! i;
             heading = np_radians (yaw (rotation origin_pose));
             path_heading =
               (if i + 1 < length path1
                then np_arctan2 (loc_y (location (transform (path1 ! (i + 1)))) - loc_y (location (transform w)))
                                (loc_x (location (transform (path1 ! (i + 1)))) - loc_x (location (transform w)))
                else np_radians (yaw (rotation (transform w))));
             heading_error = wrap_angle (path_heading - heading);
             dx = loc_x (location (transform w)) - loc_x (location origin_pose);
             dy = loc_y (location (transform w)) - loc_y (location origin_pose);
             cross_track_error = - dx * sin heading + dy * cos heading;
             angle = heading_error + arctan (stanley_k (stanley cfg0) * cross_track_error / max 5 0.1)
         in Stanley_compute_steering (stanley cfg0) origin_pose 5 path1
              = Inr (np_clip (angle / np_radians 70) (- 1) 1)
            \<and> (cross_track_error = 0 \<and> heading_error = 0
                 \<longrightarrow> Stanley_compute_steering (stanley cfg0) origin_pose 5 path1 = Inr 0))"
    by blast
  from ni have i: "i = 0" by (simp add: nearest_index_def path1_def)
  show ?thesis
    using h r unfolding i
    by (simp add: Let_def path1_def wp_at_def origin_pose_def zero_rotation_def np_radians_def
        wrap_angle_def np_arctan2_def np_clip_def)
qed

subsection \<open>The empty path\<close>

lemma curvature_empty: "estimate_path_curvature p [] n = 0"
  by (simp add: estimate_path_curvature_def Let_def)

text \<open>
  The pure-pursuit tracker reaches \<^verbatim>\<open>waypoints[-1]\<close> and raises IndexError. The docstring of
  \<^verbatim>\<open>find_lookahead_point\<close> promises \<^verbatim>\<open>None\<close> when no point is found, and \<^verbatim>\<open>run_step\<close> has a
  branch that brakes on \<^verbatim>\<open>None\<close>; that branch is never taken.
\<close>

lemma PP_run_step_empty: "PP_run_step self vehicle [] = Inl IndexError"
  by (simp add: PP_run_step_def PP_find_lookahead_point_def lookahead_from_def Let_def)

lemma Stanley_run_step_empty: "Stanley_run_step self vehicle [] = Inl AttributeError"
  by (simp add: Stanley_run_step_def Stanley_compute_steering_def find_closest_waypoint_def Let_def)

text \<open>
  Claim C8, as the specification states it, fails: on an empty path the nearest-waypoint
  operation \<^verbatim>\<open>find_closest_waypoint\<close> signals nothing. It returns normally, with no
  waypoint, index 0 and the infinite start distance.
\<close>

theorem nearest_waypoint_empty_path_counterexample:
  "find_closest_waypoint (location origin_pose) [] = (None, 0, None)"
  by (simp add: find_closest_waypoint_def)

text \<open>
  Claim C8, amended. On an empty path the nearest-waypoint operation returns no waypoint
  and raises no error. \<^verbatim>\<open>run_step\<close> of the Stanley tracker still returns no command: it
  fails with the AttributeError of reading the missing waypoint. \<^verbatim>\<open>run_step\<close> of the hybrid
  controller hands on the result of the tracker it calls, unchanged, with the tracker as
  scheduled for the tick: in switching mode the Stanley tracker's when \<open>0 > threshold\<close> and
  the pure-pursuit tracker's otherwise (the curvature estimate of an empty path is 0); in
  blending mode the error of the pure-pursuit tracker, called first, when it fails, and
  the Stanley tracker's result otherwise; in any other mode the Stanley tracker's when
  \<open>0 > threshold + blend_zone\<close>, or \<open>0 > threshold\<close> and \<open>speed < 8\<close>, and the pure-pursuit
  tracker's otherwise. What the pure-pursuit tracker itself does on an empty path is not
  part of the statement.
\<close>

theorem empty_path_fails:
  "find_closest_waypoint p [] = (None, 0, None)
   \<and> Stanley_run_step st vehicle [] = Inl AttributeError
   \<and> (let R = Hybrid_run_step hybrid vehicle [];
           by_stanley = Stanley_run_step (stanley (fst R)) vehicle [];
           by_pure_pursuit = PP_run_step (pure_pursuit (fst R)) vehicle []
       in snd R =
            (if mode hybrid = ''switching''
             then (if 0 > curvature_threshold hybrid then by_stanley else by_pure_pursuit)
             else if mode hybrid = ''blending''
             then (case by_pure_pursuit of Inl e \<Rightarrow> Inl e | Inr c \<Rightarrow> by_stanley)
             else (if 0 > curvature_threshold hybrid + blend_zone hybrid
                      \<or> (0 > curvature_threshold hybrid \<and> get_speed vehicle < 8)
                   then by_stanley else by_pure_pursuit)))"
proof -
  have nearest: "find_closest_waypoint p [] = (None, 0, None)"
    by (simp add: find_closest_waypoint_def)
  have hybrid: "(let R = Hybrid_run_step hybrid vehicle [];
           by_stanley = Stanley_run_step (stanley (fst R)) vehicle [];
           by_pure_pursuit = PP_run_step (pure_pursuit (fst R)) vehicle []
       in snd R =
            (if mode hybrid = ''switching''
             then (if 0 > curvature_threshold hybrid then by_stanley else by_pure_pursuit)
             else if mode hybrid = ''blending''
             then (case by_pure_pursuit of Inl e \<Rightarrow> Inl e | Inr c \<Rightarrow> by_stanley)
             else (if 0 > curvature_threshold hybrid + blend_zone hybrid
                      \<or> (0 > curvature_threshold hybrid \<and> get_speed vehicle < 8)
                   then by_stanley else by_pure_pursuit)))"
    by (simp add: Hybrid_run_step_def Let_def curvature_empty PP_run_step_empty
        Stanley_run_step_empty)
  show ?thesis
    using nearest hybrid by (simp add: Stanley_run_step_empty)
qed

theorem empty_path_fails_witness:
  "find_closest_waypoint (location origin_pose) [] = (None, 0, None)
   \<and> Stanley_run_step (stanley cfg0) veh0 [] = Inl AttributeError
   \<and> snd (Hybrid_run_step (cfg0\<lparr>mode := ''switching'', curvature_threshold := - 1\<rparr>) veh0 [])
       = Inl AttributeError"
  using empty_path_fails [of "location origin_pose" "stanley cfg0" veh0
      "cfg0\<lparr>mode := ''switching'', curvature_threshold := - 1\<rparr>"]
  by (simp add: Let_def Stanley_run_step_empty)

subsection \<open>The curvature estimate\<close>

lemma np_arctan2_minus_abs: "\<bar>np_arctan2 (- y) x\<bar> = \<bar>np_arctan2 y x\<bar>"
  by (auto simp: np_arctan2_def arctan_minus)

lemma wrap_angle_abs: "\<bar>wrap_angle \<bar>d\<bar>\<bar> = \<bar>wrap_angle d\<bar>"
proof (cases "0 \<le> d")
  case True
  then show ?thesis by simp
next
  case False
  then have "\<bar>d\<bar> = - d" by simp
  then show ?thesis by (simp add: wrap_angle_def np_arctan2_minus_abs)
qed

lemma length_np_diff: "length (np_diff xs) = length xs - 1"
  by (induction xs rule: np_diff.induct) simp_all

lemma window_points:
  assumes "i + n \<le> length path - 1"
  shows "map (\<lambda>j. let wp = location (transform (path ! j)) in (loc_x wp, loc_y wp)) [i ..< i + n]
       = map waypoint_xy (take n (drop i (butlast path)))"
proof (rule nth_equalityI)
  show "length (map (\<lambda>j. let wp = location (transform (path ! j)) in (loc_x wp, loc_y wp)) [i ..< i + n])
      = length (map waypoint_xy (take n (drop i (butlast path))))"
    using assms by simp
next
  fix k assume "k < length (map (\<lambda>j. let wp = location (transform (path ! j)) in (loc_x wp, loc_y wp)) [i ..< i + n])"
  then have k: "k < n" by simp
  then have "i + k < length (butlast path)" using assms by simp
  then have "take n (drop i (butlast path)) ! k = path ! (i + k)"
    using k by (simp add: nth_butlast)
  moreover have "k < length (take n (drop i (butlast path)))" using k assms by simp
  ultimately show "map (\<lambda>j. let wp = location (transform (path ! j)) in (loc_x wp, loc_y wp)) [i ..< i + n] ! k
      = map waypoint_xy (take n (drop i (butlast path))) ! k"
    using k by (simp add: waypoint_xy_def Let_def)
qed

text \<open>
  What \<^verbatim>\<open>estimate_path_curvature\<close> computes, for every path and its nearest index \<open>i\<close>: the
  curvature of up to 10 waypoints from \<open>i\<close> on, taken from the path without its last
  waypoint. The bound \<^verbatim>\<open>len(waypoints) - 1\<close> of \<^verbatim>\<open>end_idx\<close> is used as the exclusive end of
  \<^verbatim>\<open>range(closest_idx, end_idx)\<close>.
\<close>

lemma estimate_path_curvature_window:
  assumes "nearest_index p path i"
  shows "estimate_path_curvature p path 10
       = curvature_of_points (map waypoint_xy (take 10 (drop i (butlast path))))"
proof -
  have ne: "path \<noteq> []" using assms by (auto simp: nearest_index_def)
  obtain i' where cl: "closest_loop p path 0 (None, 0)
      = (Some (distance p (location (transform (path ! i')))), i')"
    and "nearest_index p path i'"
    using closest_loop_nearest [OF ne] by blast
  then have i': "i' = i" using assms nearest_index_unique by blast
  have ilen: "i < length path" using assms by (simp add: nearest_index_def)
  define n where "n = min 10 (length path - 1 - i)"
  have end_idx: "min (int i + 10) (int (length path) - 1) = int (i + n)"
    using ilen unfolding n_def by linarith
  have bound: "i + n \<le> length path - 1" using ilen by (simp add: n_def)
  have tk: "take 10 (drop i (butlast path)) = take n (drop i (butlast path))"
    by (simp add: n_def min_def)
  define pts where "pts = map waypoint_xy (take n (drop i (butlast path)))"
  have lp: "length pts = n" using bound by (simp add: pts_def)
  have pts_eq: "map (\<lambda>j. (loc_x (location (transform (path ! j))), loc_y (location (transform (path ! j)))))
                  [i ..< nat (int i + int n)] = pts"
    using window_points [OF bound] by (simp add: pts_def Let_def nat_int_add)
  let ?dx = "np_diff (map fst pts)" and ?dy = "np_diff (map snd pts)"
  let ?hs = "np_diff (map2 np_arctan2 ?dy ?dx)"
  let ?arc = "sum_list (map2 (\<lambda>a b. sqrt (a\<^sup>2 + b\<^sup>2)) (butlast ?dx) (butlast ?dy))"
  have code: "estimate_path_curvature p path 10 =
      (if n < 3 then 0
       else if length pts < 3 then 0
       else if 1 < length (map2 np_arctan2 ?dy ?dx)
         then (if ?arc > 0.1
               then sum_list (map abs (map (\<lambda>h. np_arctan2 (sin h) (cos h)) (map abs ?hs))) / ?arc
               else 0)
         else 0)"
    unfolding estimate_path_curvature_def cl i' prod.case Let_def end_idx
    by (simp add: pts_eq)
  have sums: "sum_list (map abs (map (\<lambda>h. np_arctan2 (sin h) (cos h)) (map abs hs)))
      = sum_list (map (\<lambda>d. \<bar>wrap_angle d\<bar>) hs)" for hs
    by (induction hs) (simp_all add: wrap_angle_abs wrap_angle_def [symmetric])
  have spec: "curvature_of_points pts =
      (if length pts < 3 then 0
       else if ?arc \<le> 0.1 then 0 else sum_list (map (\<lambda>d. \<bar>wrap_angle d\<bar>) ?hs) / ?arc)"
    unfolding curvature_of_points_def Let_def by simp
  show ?thesis
  proof (cases "n < 3")
    case True
    then show ?thesis unfolding tk pts_def [symmetric] code spec using lp by simp
  next
    case False
    then have "1 < length (map2 np_arctan2 ?dy ?dx)"
      using lp by (simp add: length_np_diff)
    then show ?thesis
      unfolding tk pts_def [symmetric] code spec sums using False lp by (simp add: not_less)
  qed
qed

lemma closest_path3: "closest_loop (location origin_pose) path3 0 (None, 0) = (Some 0, 0)"
  by (simp add: path3_def wp_at_def origin_pose_def distance_def)

text \<open>
  Claim C4 says that the estimate is the curvature of up to 10 waypoints starting at the
  nearest index, and 0 only when fewer than 3 points are available or the arc length is
  at most 0.1. On the three waypoints \<open>(0,0), (1,0), (1,1)\<close>, with the vehicle at the
  first one, three points are available and their curvature is \<open>pi / 2\<close> (one quarter turn
  over the arc length 1), but the code returns 0: its window ends before the last
  waypoint of the path and holds two points.
\<close>

theorem curvature_estimate_drops_last_waypoint:
  "closest_loop (location origin_pose) path3 0 (None, 0) = (Some 0, 0)
   \<and> length (take 10 (drop 0 path3)) = 3
   \<and> estimate_path_curvature (location origin_pose) path3 10 = 0
   \<and> curvature_of_points (map waypoint_xy (take 10 (drop 0 path3))) = pi / 2"
proof -
  have a: "estimate_path_curvature (location origin_pose) path3 10 = 0"
    by (simp add: estimate_path_curvature_def closest_path3) (simp add: path3_def)
  have b: "curvature_of_points (map waypoint_xy (take 10 (drop 0 path3))) = pi / 2"
    by (simp add: curvature_of_points_def path3_def wp_at_def waypoint_xy_def Let_def
        np_arctan2_def wrap_angle_def)
  show ?thesis using a b closest_path3 by (simp add: path3_def)
qed

end
